theory Spec2Isabelle
  imports Main "HOL-Library.Multiset"
begin

section \<open>The service of src/server/index.js\<close>

text \<open>
  The program is one Node.js module: it opens an embedded SQLite store through
  the libsql client, registers three Express handlers, resolves a listening
  port, and installs a signal-triggered shutdown. Everything the module does
  goes through a library call whose result the module cannot determine
  (the file system, the store, the network, timers). Each such result is an
  explicit input of the model: a field of an environment record, an event of
  an event list, or a function parameter. The module's own control flow (its
  branches, its try/catch blocks, the arguments it passes on and the values it
  returns or exits with) is translated function by function.
\<close>

subsection \<open>JavaScript values\<close>

text \<open>
  JSON values as \<open>express.json()\<close> and \<open>response.json()\<close> produce them. No
  function of the module computes with a JSON number, so the carrier of
  \<open>JNum\<close> is immaterial. A missing property reads as \<open>undefined\<close>, which is
  \<open>None\<close> of \<open>json option\<close>.
\<close>

datatype json =
    JNull
  | JBool bool
  | JNum int
  | JStr string
  | JArr "json list"
  | JObj "(string \<times> json) list"

text \<open>Property access \<open>v.k\<close> on a parsed JSON value that is not \<open>null\<close>.\<close>

fun field :: "json \<Rightarrow> string \<Rightarrow> json option" where
  "field (JObj kvs) k = map_of kvs k"
| "field _ k = None"

text \<open>A thrown JavaScript error: the handlers only ever read its \<open>name\<close>.\<close>

record js_error =
  name :: string
  message :: string

definition TypeError :: js_error where
  "TypeError = \<lparr>name = ''TypeError'', message = ''Cannot read properties of undefined''\<rparr>"

definition AbortError :: js_error where
  "AbortError = \<lparr>name = ''AbortError'', message = ''This operation was aborted''\<rparr>"

text \<open>
  The value of the constant \<open>PORT\<close>: the number 3000 or the string of the
  environment variable.
\<close>

datatype port_val = PNum int | PStr string

text \<open>
  \<open>process.env.PORT || 3000\<close>: an unset variable is \<open>undefined\<close> and an empty
  one is the empty string; both are falsy. Every other string is truthy and
  is kept as a string.
\<close>

definition resolve_PORT :: "string option \<Rightarrow> port_val" where
  "resolve_PORT e = (case e of None \<Rightarrow> PNum 3000
                     | Some s \<Rightarrow> if s = [] then PNum 3000 else PStr s)"

text \<open>
  \<open>PORT + 1\<close>: addition on a number, concatenation with \<open>"1"\<close> on a string.
\<close>

fun plus_one :: "port_val \<Rightarrow> port_val" where
  "plus_one (PNum n) = PNum (n + 1)"
| "plus_one (PStr s) = PStr (s @ ''1'')"

subsection \<open>What \<open>listen\<close> makes of its argument\<close>

text \<open>
  Node's \<open>net.Server.listen\<close> takes a number or a numeric string as a TCP
  port and validates it: an integer from 0 to 65535, or it throws
  \<open>ERR_SOCKET_BAD_PORT\<close> synchronously; a string that is no number is the
  name of a pipe. Numbers and strings of decimal digits are read here. What
  Node makes of any other string (it converts with \<open>Number\<close>, so \<open>3e3\<close> is
  port 3000 and \<open>3000.5\<close> is refused) is not computed: it is the parameter
  \<open>other\<close>, which the startup environment supplies.
\<close>

datatype listen_address = TcpPort nat | InvalidPort | PipeName string

definition is_digit :: "char \<Rightarrow> bool" where
  "is_digit c = (c \<in> set ''0123456789'')"

definition digit_val :: "char \<Rightarrow> nat" where
  "digit_val c = of_char c - 48"

definition decimal :: "string \<Rightarrow> nat" where
  "decimal s = foldl (\<lambda>n c. 10 * n + digit_val c) 0 s"

fun listen_address_of :: "(string \<Rightarrow> listen_address) \<Rightarrow> port_val \<Rightarrow> listen_address" where
  "listen_address_of other (PNum n) =
     (if 0 \<le> n \<and> n \<le> 65535 then TcpPort (nat n) else InvalidPort)"
| "listen_address_of other (PStr s) =
     (if s \<noteq> [] \<and> list_all is_digit s
      then (if decimal s \<le> 65535 then TcpPort (decimal s) else InvalidPort)
      else other s)"

subsection \<open>The store\<close>

text \<open>
  A row of table \<open>user_data\<close>. \<open>created_at\<close> is the value of
  \<open>CURRENT_TIMESTAMP\<close> at the insert, counted in seconds.
\<close>

record user_row =
  row_id :: int
  budget :: json
  city :: json
  investment_type :: json
  target_audience :: json
  created_at :: nat

text \<open>
  The content of \<open>database.sqlite\<close>: the rows in insertion order and the
  next value of the \<open>AUTOINCREMENT\<close> key.
\<close>

record store =
  table :: "user_row list"
  next_id :: int

definition empty_store :: store where
  "empty_store = \<lparr>table = [], next_id = 1\<rparr>"

text \<open>
  The statements the module sends to \<open>db.execute\<close>, each standing for the
  SQL text of the source:
  \<^item> \<open>Select1\<close>: \<open>SELECT 1\<close>
  \<^item> \<open>CreateTable\<close>: \<open>CREATE TABLE IF NOT EXISTS user_data (...)\<close>
  \<^item> \<open>Insert args\<close>: \<open>INSERT INTO user_data (budget, city, investment_type,
    target_audience) VALUES (?, ?, ?, ?)\<close> with \<open>args\<close>
  \<^item> \<open>SelectById i\<close>: \<open>SELECT * FROM user_data WHERE id = ?\<close> with \<open>[i]\<close>
  \<^item> \<open>SelectAllOrdered\<close>: \<open>SELECT * FROM user_data ORDER BY created_at DESC\<close>
\<close>

datatype stmt =
    Select1
  | CreateTable
  | Insert "json option list"
  | SelectById "int option"
  | SelectAllOrdered

record result_set =
  rows :: "user_row list"
  lastInsertRowid :: "int option"

text \<open>
  The storage collaborator as the handlers see it: \<open>db.execute\<close> either
  rejects with an error or resolves with a result set, leaving a new store.
\<close>

type_synonym 'db executor = "'db \<Rightarrow> stmt \<Rightarrow> js_error + (result_set \<times> 'db)"

definition storage_error :: js_error where
  "storage_error = \<lparr>name = ''LibsqlError'', message = ''SQLITE_ERROR''\<rparr>"

definition constraint_error :: js_error where
  "constraint_error = \<lparr>name = ''LibsqlError'', message = ''SQLITE_CONSTRAINT''\<rparr>"

text \<open>
  A reference store: what SQLite does with the five statements on table
  \<open>user_data\<close>. \<open>fails\<close> says which statements the storage layer rejects for
  reasons of its own (I/O, locking); \<open>now\<close> is the clock. The four columns are
  \<open>NOT NULL\<close>, so an insert with a missing or \<open>null\<close> argument is rejected;
  other values are stored as given. \<open>ORDER BY created_at DESC\<close> sorts by the
  key, descending.
\<close>

definition insert_row :: "nat \<Rightarrow> store \<Rightarrow> json option list \<Rightarrow> js_error + (result_set \<times> store)" where
  "insert_row now s args =
     (case args of
        [Some b, Some c, Some i, Some t] \<Rightarrow>
          if JNull \<in> set [b, c, i, t] then Inl constraint_error
          else Inr (\<lparr>rows = [], lastInsertRowid = Some (next_id s)\<rparr>,
                    s\<lparr>table := table s @
                         [\<lparr>row_id = next_id s, budget = b, city = c, investment_type = i,
                           target_audience = t, created_at = now\<rparr>],
                      next_id := next_id s + 1\<rparr>)
      | _ \<Rightarrow> Inl constraint_error)"

definition order_by_created_at_desc :: "user_row list \<Rightarrow> user_row list" where
  "order_by_created_at_desc rs = rev (sort_key created_at rs)"

definition store_execute :: "(stmt \<Rightarrow> bool) \<Rightarrow> nat \<Rightarrow> store executor" where
  "store_execute fails now s q =
     (if fails q then Inl storage_error
      else case q of
        Select1 \<Rightarrow> Inr (\<lparr>rows = [], lastInsertRowid = None\<rparr>, s)
      | CreateTable \<Rightarrow> Inr (\<lparr>rows = [], lastInsertRowid = None\<rparr>, s)
      | Insert args \<Rightarrow> insert_row now s args
      | SelectById i \<Rightarrow>
          Inr (\<lparr>rows = filter (\<lambda>r. Some (row_id r) = i) (table s), lastInsertRowid = None\<rparr>, s)
      | SelectAllOrdered \<Rightarrow>
          Inr (\<lparr>rows = order_by_created_at_desc (table s), lastInsertRowid = None\<rparr>, s))"

subsection \<open>The process\<close>

text \<open>
  The lines the module prints, in the order of the source:
  \<^item> \<open>DatabaseCorrupted\<close>: \<open>Database corrupted, recreating...\<close>
  \<^item> \<open>ErrorCheckingDatabase\<close>: \<open>Error checking database:\<close>
  \<^item> \<open>DatabaseInitialized\<close>: \<open>Database initialized successfully\<close>
  \<^item> \<open>ErrorInitializingDatabase\<close>: \<open>Error initializing database:\<close>
  \<^item> \<open>ErrorCheckingPort p c\<close>: \<open>Error checking port p:\<close> with error code \<open>c\<close>
  \<^item> \<open>ShutDownGracefully\<close>: \<open>Server shut down gracefully\<close>
  \<^item> \<open>PortInUse p q\<close>: \<open>Port p is already in use. Trying port q\<close>
  \<^item> \<open>ServerRunning p\<close>: \<open>Server running on port p\<close>
  \<^item> \<open>FailedToStart\<close>: \<open>Failed to start server:\<close>
  \<^item> \<open>UncaughtListenError c\<close>: Node's report of an \<open>error\<close> event nobody
    listens for, with error code \<open>c\<close>
  \<^item> \<open>UnhandledRejection\<close>: Node's report of a rejected promise nobody
    handles
\<close>

datatype log_entry =
    DatabaseCorrupted
  | ErrorCheckingDatabase
  | DatabaseInitialized
  | ErrorInitializingDatabase
  | ErrorCheckingPort port_val string
  | ShutDownGracefully
  | PortInUse port_val port_val
  | ServerRunning port_val
  | FailedToStart
  | UncaughtListenError string
  | UnhandledRejection

text \<open>
  The HTTP server object behind the module variable \<open>server\<close>: the address
  it was told to listen on, whether its listening handle is open, the open
  connections (each with a request in flight), and whether the callback of
  \<open>shutdown\<close> waits for the \<open>close\<close> event.
\<close>

record http_server =
  address :: listen_address
  handle_open :: bool
  connections :: "nat list"
  close_callback :: bool

text \<open>
  The process: the file \<open>database.sqlite\<close> (\<open>None\<close> when it does not exist),
  the module variables \<open>db\<close> (assigned or not) and \<open>server\<close>, the requests
  whose responses have been written, the exit status once the process has
  ended, and the console.
\<close>

record process =
  db_file :: "store option"
  db :: bool
  server :: "http_server option"
  flushed :: "nat list"
  exit_code :: "int option"
  console :: "log_entry list"

definition boot :: "store option \<Rightarrow> process" where
  "boot f = \<lparr>db_file = f, db = False, server = None, flushed = [], exit_code = None, console = []\<rparr>"

definition log :: "log_entry \<Rightarrow> process \<Rightarrow> process" where
  "log l p = p\<lparr>console := console p @ [l]\<rparr>"

definition process_exit :: "int \<Rightarrow> process \<Rightarrow> process" where
  "process_exit c p = p\<lparr>exit_code := Some c\<rparr>"

text \<open>
  The probe of an existing file is \<open>createClient\<close> followed by
  \<open>db.execute('SELECT 1')\<close>, whose promise is not awaited. It passes, or
  one of the two calls throws synchronously, or the promise of the query
  rejects later.
\<close>

datatype probe_outcome = ProbePasses | ProbeThrows | ProbeRejects

text \<open>
  The real listener binds, or its bind fails with an error code. A failed
  bind makes the server emit \<open>error\<close>. Under Express 4 nobody listens for
  it and Node raises an uncaught exception; Express 5 passes the error to
  the callback of \<open>app.listen\<close>. The repository does not say which Express
  it runs on, so the environment says which of the two happens.
\<close>

datatype listen_event = Listening | ErrorUncaught string | ErrorToCallback string

datatype tester_event = TesterListening | TesterError string

text \<open>
  What the environment answers during startup: the variable \<open>PORT\<close>; the
  outcome of the probe; whether Node ends the process on an unhandled
  rejection (the default since Node 15) or only warns; whether
  \<open>fs.unlinkSync\<close> throws; whether \<open>createClient\<close> in \<open>initializeDatabase\<close>
  throws; whether the awaited \<open>CREATE TABLE\<close> rejects; what Node makes of a
  port string that is not made of decimal digits; what happens to the
  transient test listener; and what happens to the real one.
\<close>

record startup_env =
  env_PORT :: "string option"
  probe :: probe_outcome
  unhandled_rejections_throw :: bool
  unlink_throws :: bool
  createClient_throws :: bool
  createTable_rejects :: bool
  other_port_string :: "string \<Rightarrow> listen_address"
  tester_outcome :: tester_event
  listener :: listen_event

subsection \<open>\<open>checkAndInitializeDatabase\<close> and \<open>initializeDatabase\<close>\<close>

text \<open>
  The inner \<open>catch\<close> deletes the file when the probe throws; the outer
  \<open>catch\<close> logs whatever \<open>unlinkSync\<close> throws and lets startup go on. The
  \<open>try\<close> is synchronous and the query's promise is not awaited: when the
  promise rejects, no \<open>catch\<close> of this function sees it.
\<close>

definition checkAndInitializeDatabase :: "startup_env \<Rightarrow> process \<Rightarrow> process" where
  "checkAndInitializeDatabase env p =
     (if db_file p \<noteq> None then
        (case probe env of
           ProbeThrows \<Rightarrow>
             (let p1 = log DatabaseCorrupted p in
              if unlink_throws env then log ErrorCheckingDatabase p1
              else p1\<lparr>db_file := None\<rparr>)
         | ProbeRejects \<Rightarrow> p
         | ProbePasses \<Rightarrow> p)
      else p)"

text \<open>
  The rejection of the probe's promise stays unhandled. Node reports
  unhandled rejections once the running code and its continuations have
  finished; where Node is set to end the process on them, it ends with
  status 1.
\<close>

definition unhandled_rejection :: "startup_env \<Rightarrow> process \<Rightarrow> bool" where
  "unhandled_rejection env p =
     (db_file p \<noteq> None \<and> probe env = ProbeRejects \<and> unhandled_rejections_throw env)"

text \<open>
  \<open>createClient\<close> opens the file, creating an empty one when there is none.
  \<open>CREATE TABLE IF NOT EXISTS\<close> leaves existing rows alone. Either failure
  is caught, logged, and ends the process with status 1. On success the
  client is returned.
\<close>

definition initializeDatabase :: "startup_env \<Rightarrow> process \<Rightarrow> process" where
  "initializeDatabase env p =
     (let p1 = checkAndInitializeDatabase env p in
      if createClient_throws env then process_exit 1 (log ErrorInitializingDatabase p1)
      else
        (let p2 = p1\<lparr>db_file := Some (case db_file p1 of None \<Rightarrow> empty_store | Some s \<Rightarrow> s)\<rparr> in
         if createTable_rejects env then process_exit 1 (log ErrorInitializingDatabase p2)
         else log DatabaseInitialized p2))"

subsection \<open>\<open>isPortInUse\<close>\<close>

text \<open>
  The promise resolves \<open>true\<close> only on an \<open>error\<close> event whose code is
  \<open>EADDRINUSE\<close>; any other error is logged and resolves \<open>false\<close>, as does a
  successful bind (after the tester has closed). The result is \<open>None\<close> when
  \<open>listen(port)\<close> throws inside the promise executor, which rejects the
  promise.
\<close>

definition isPortInUse :: "startup_env \<Rightarrow> port_val \<Rightarrow> (bool \<times> log_entry list) option" where
  "isPortInUse env port =
     (if listen_address_of (other_port_string env) port = InvalidPort then None
      else case tester_outcome env of
        TesterError c \<Rightarrow>
          if c = ''EADDRINUSE'' then Some (True, [])
          else Some (False, [ErrorCheckingPort port c])
      | TesterListening \<Rightarrow> Some (False, []))"

subsection \<open>\<open>startServer\<close>\<close>

text \<open>The \<open>catch\<close> of \<open>startServer\<close>.\<close>

definition failed_to_start :: "process \<Rightarrow> process" where
  "failed_to_start p = process_exit 1 (log FailedToStart p)"

text \<open>
  \<open>server = app.listen(port, callback)\<close>. An invalid port throws, into the
  \<open>catch\<close> of \<open>startServer\<close>. Otherwise \<open>server\<close> is assigned. When the bind
  succeeds the callback prints the port. When it fails, either Node raises
  an uncaught exception (exit status 1), or the callback is called with the
  error, which it ignores: it prints the port, and no listener is open.
\<close>

definition app_listen :: "startup_env \<Rightarrow> port_val \<Rightarrow> process \<Rightarrow> process" where
  "app_listen env port p =
     (case listen_address_of (other_port_string env) port of
        InvalidPort \<Rightarrow> failed_to_start p
      | a \<Rightarrow>
         (case listener env of
            Listening \<Rightarrow>
              log (ServerRunning port)
                (p\<lparr>server := Some \<lparr>address = a, handle_open = True, connections = [],
                                   close_callback = False\<rparr>\<rparr>)
          | ErrorUncaught c \<Rightarrow>
              process_exit 1 (log (UncaughtListenError c)
                (p\<lparr>server := Some \<lparr>address = a, handle_open = False, connections = [],
                                   close_callback = False\<rparr>\<rparr>))
          | ErrorToCallback c \<Rightarrow>
              log (ServerRunning port)
                (p\<lparr>server := Some \<lparr>address = a, handle_open = False, connections = [],
                                   close_callback = False\<rparr>\<rparr>)))"

text \<open>
  \<open>db = await initializeDatabase()\<close>, the registration of the three handlers
  (which does nothing observable before a request arrives), then the port.
  A port that \<open>listen\<close> refuses rejects the promise of \<open>isPortInUse\<close> at
  once, and the \<open>catch\<close> ends the process. Otherwise the program waits for
  the test listener; this is where Node gets to report an unhandled
  rejection of the probe.
\<close>

definition startServer :: "startup_env \<Rightarrow> process \<Rightarrow> process" where
  "startServer env p =
     (let p0 = initializeDatabase env p in
      if exit_code p0 \<noteq> None then p0
      else
        (let p1 = p0\<lparr>db := True\<rparr>;
             PORT = resolve_PORT (env_PORT env) in
         case isPortInUse env PORT of
           None \<Rightarrow> failed_to_start p1
         | Some (portInUse, printed) \<Rightarrow>
             if unhandled_rejection env p then process_exit 1 (log UnhandledRejection p1)
             else
               (let p2 = p1\<lparr>console := console p1 @ printed\<rparr> in
                if portInUse
                then app_listen env (plus_one PORT) (log (PortInUse PORT (plus_one PORT)) p2)
                else app_listen env PORT p2)))"

text \<open>The service accepts connections: the listener is open and the process runs.\<close>

definition accepting :: "process \<Rightarrow> bool" where
  "accepting p =
     (exit_code p = None \<and> (case server p of None \<Rightarrow> False | Some s \<Rightarrow> handle_open s))"

definition bound_address :: "process \<Rightarrow> listen_address option" where
  "bound_address p = (if accepting p then map_option address (server p) else None)"

subsection \<open>\<open>shutdown\<close> and the drain\<close>

text \<open>The callback that \<open>shutdown\<close> passes to \<open>server.close\<close>.\<close>

definition shutdown_callback :: "process \<Rightarrow> process" where
  "shutdown_callback p = process_exit 0 (log ShutDownGracefully p)"

text \<open>
  Node emits \<open>close\<close> on a server once its handle is closed and its last
  connection has ended; the registered callback runs then.
\<close>

definition emit_close_if_drained :: "process \<Rightarrow> process" where
  "emit_close_if_drained p =
     (case server p of
        None \<Rightarrow> p
      | Some s \<Rightarrow>
          if \<not> handle_open s \<and> connections s = [] \<and> close_callback s
          then shutdown_callback p else p)"

text \<open>
  \<open>server.close(callback)\<close>: the callback is registered for \<open>close\<close>, the
  listening handle is closed at once, open connections are kept.
\<close>

definition server_close :: "http_server \<Rightarrow> process \<Rightarrow> process" where
  "server_close s p =
     emit_close_if_drained (p\<lparr>server := Some (s\<lparr>handle_open := False, close_callback := True\<rparr>)\<rparr>)"

definition shutdown :: "process \<Rightarrow> process" where
  "shutdown p =
     (case server p of
        Some s \<Rightarrow> server_close s p
      | None \<Rightarrow> process_exit 0 p)"

text \<open>
  What reaches a running process: one of the two signals the module handles,
  a connection attempt, or the completion of the request on a connection
  (its response written, the connection ended). A process that has exited
  reacts to nothing.
\<close>

datatype signal = SIGINT | SIGTERM

datatype event = Signal signal | Connect nat | Finish nat

definition step :: "process \<Rightarrow> event \<Rightarrow> process" where
  "step p ev =
     (if exit_code p \<noteq> None then p
      else case ev of
        Signal sig \<Rightarrow> shutdown p
      | Connect c \<Rightarrow>
          (case server p of
             None \<Rightarrow> p
           | Some s \<Rightarrow>
               if handle_open s \<and> c \<notin> set (connections s)
               then p\<lparr>server := Some (s\<lparr>connections := connections s @ [c]\<rparr>)\<rparr>
               else p)
      | Finish c \<Rightarrow>
          (case server p of
             None \<Rightarrow> p
           | Some s \<Rightarrow>
               if c \<in> set (connections s)
               then emit_close_if_drained
                      (p\<lparr>server := Some (s\<lparr>connections := removeAll c (connections s)\<rparr>),
                         flushed := flushed p @ [c]\<rparr>)
               else p))"

definition run :: "process \<Rightarrow> event list \<Rightarrow> process" where
  "run p evs = foldl step p evs"

definition open_connections :: "process \<Rightarrow> nat list" where
  "open_connections p = (case server p of None \<Rightarrow> [] | Some s \<Rightarrow> connections s)"

subsection \<open>\<open>fetchWithTimeout\<close>\<close>

text \<open>
  An upstream response: its status and what becomes of \<open>response.json()\<close>,
  which resolves with the parsed body, rejects when the body is not JSON, or
  stays pending when the upstream stops sending. \<open>ok\<close> is the Fetch
  standard's: a status from 200 to 299.
\<close>

datatype body_read = BodyJson json | BodyInvalid | BodyStalls

record fetch_response =
  status :: nat
  json_body :: body_read

definition ok :: "fetch_response \<Rightarrow> bool" where
  "ok r = (200 \<le> status r \<and> status r \<le> 299)"

text \<open>
  What the network does with one \<open>fetch\<close>, left to itself: it settles after
  some milliseconds, resolved with a response or rejected with an error, or
  it never settles.
\<close>

datatype fetch_result = Resolves fetch_response | Rejects js_error

datatype fetch_behaviour = SettlesAt nat fetch_result | NeverSettles

text \<open>
  One call of \<open>fetchWithTimeout\<close> is a small state machine. Its state: the
  timer of \<open>setTimeout\<close>, the abort flag of the controller's signal, and the
  outcome (\<open>None\<close> while the \<open>await\<close> is pending, then the returned response or
  the rethrown error). Two things can happen to it: the timer's time comes,
  or the network settles the fetch.
\<close>

datatype timer_state = Armed | Cleared | Fired

datatype call_event = TimerFires | FetchSettles fetch_result

record call_state =
  timer :: timer_state
  aborted :: bool
  outcome :: "(js_error + fetch_response) option"

definition pending :: call_state where
  "pending = \<lparr>timer = Armed, aborted = False, outcome = None\<rparr>"

text \<open>\<open>clearTimeout\<close> disarms an armed timer and does nothing to any other.\<close>

fun clearTimeout :: "timer_state \<Rightarrow> timer_state" where
  "clearTimeout Armed = Cleared"
| "clearTimeout t = t"

text \<open>
  The continuation after the \<open>await\<close>: on a resolved fetch
  \<open>clearTimeout(timeoutId); return response\<close>, on a rejected one
  \<open>clearTimeout(timeoutId); throw error\<close>. A promise settles once: a
  settlement after the first changes nothing.
\<close>

definition settle :: "fetch_result \<Rightarrow> call_state \<Rightarrow> call_state" where
  "settle r s =
     (if outcome s \<noteq> None then s
      else s\<lparr>timer := clearTimeout (timer s),
             outcome := Some (case r of Resolves resp \<Rightarrow> Inr resp | Rejects e \<Rightarrow> Inl e)\<rparr>)"

text \<open>
  Only an armed timer fires. Its callback is \<open>controller.abort()\<close>, on which
  a pending fetch rejects with an \<open>AbortError\<close>.
\<close>

definition call_step :: "call_state \<Rightarrow> call_event \<Rightarrow> call_state" where
  "call_step s ev =
     (case ev of
        TimerFires \<Rightarrow>
          if timer s = Armed then settle (Rejects AbortError) (s\<lparr>timer := Fired, aborted := True\<rparr>)
          else s
      | FetchSettles r \<Rightarrow> settle r s)"

definition call_run :: "call_event list \<Rightarrow> call_state" where
  "call_run evs = foldl call_step pending evs"

text \<open>
  The order of events for a fetch and a timeout: a fetch that settles before
  the timeout comes first, and the timer's time comes after it; otherwise the
  timer comes first.
\<close>

fun schedule :: "fetch_behaviour \<Rightarrow> nat \<Rightarrow> call_event list" where
  "schedule (SettlesAt t r) timeout =
     (if t < timeout then [FetchSettles r, TimerFires] else [TimerFires, FetchSettles r])"
| "schedule NeverSettles timeout = [TimerFires]"

definition fetchWithTimeout :: "fetch_behaviour \<Rightarrow> nat \<Rightarrow> (js_error + fetch_response) option" where
  "fetchWithTimeout net timeout = outcome (call_run (schedule net timeout))"

subsection \<open>The handlers\<close>

record request =
  headers :: "(string \<times> string) list"
  body :: "json option"

text \<open>
  A response of the service: \<open>ErrorBody m\<close> is the object \<open>{ error: m }\<close>;
  \<open>RowBody\<close> is \<open>rows[0]\<close>, undefined for an empty result.
\<close>

datatype reply_body =
    ErrorBody string
  | RowBody "user_row option"
  | RowsBody "user_row list"
  | JsonBody json

record reply =
  res_status :: nat
  res_body :: reply_body

text \<open>What a handler prints: a label and the error it caught, or a plain line.\<close>

datatype handler_log = Printed string | PrintedError string js_error

text \<open>
  Reading a property of \<open>req.body\<close> (or destructuring it) throws a
  \<open>TypeError\<close> when the body is \<open>undefined\<close> or \<open>null\<close>.
\<close>

definition property :: "json option \<Rightarrow> string \<Rightarrow> js_error + json option" where
  "property b k =
     (case b of
        None \<Rightarrow> Inl TypeError
      | Some JNull \<Rightarrow> Inl TypeError
      | Some v \<Rightarrow> Inr (field v k))"

definition destructure :: "json option \<Rightarrow> js_error + json option list" where
  "destructure b =
     (case b of
        None \<Rightarrow> Inl TypeError
      | Some JNull \<Rightarrow> Inl TypeError
      | Some v \<Rightarrow>
          Inr [field v ''budget'', field v ''city'', field v ''investmentType'',
               field v ''targetAudience''])"

text \<open>\<open>POST /api/user-data\<close>.\<close>

definition save_failed :: "js_error \<Rightarrow> reply \<times> handler_log list" where
  "save_failed e =
     (\<lparr>res_status = 500, res_body = ErrorBody ''Failed to save user data''\<rparr>,
      [PrintedError ''Error saving user data:'' e])"

definition post_user_data ::
  "'db executor \<Rightarrow> 'db \<Rightarrow> request \<Rightarrow> (reply \<times> handler_log list) \<times> 'db" where
  "post_user_data execute d req =
     (case destructure (body req) of
        Inl e \<Rightarrow> (save_failed e, d)
      | Inr args \<Rightarrow>
         (case execute d (Insert args) of
            Inl e \<Rightarrow> (save_failed e, d)
          | Inr (result, d1) \<Rightarrow>
             (case execute d1 (SelectById (lastInsertRowid result)) of
                Inl e \<Rightarrow> (save_failed e, d1)
              | Inr (insertedData, d2) \<Rightarrow>
                  ((\<lparr>res_status = 200,
                     res_body = RowBody (case rows insertedData of [] \<Rightarrow> None | r # _ \<Rightarrow> Some r)\<rparr>,
                    []), d2))))"

text \<open>\<open>GET /api/user-data\<close>.\<close>

definition fetch_failed :: "js_error \<Rightarrow> reply \<times> handler_log list" where
  "fetch_failed e =
     (\<lparr>res_status = 500, res_body = ErrorBody ''Failed to fetch user data''\<rparr>,
      [PrintedError ''Error fetching user data:'' e])"

definition get_user_data ::
  "'db executor \<Rightarrow> 'db \<Rightarrow> request \<Rightarrow> (reply \<times> handler_log list) \<times> 'db" where
  "get_user_data execute d req =
     (case execute d SelectAllOrdered of
        Inl e \<Rightarrow> (fetch_failed e, d)
      | Inr (result, d1) \<Rightarrow> ((\<lparr>res_status = 200, res_body = RowsBody (rows result)\<rparr>, []), d1))"

text \<open>
  \<open>POST /api/proxy/ai\<close>. The request sent upstream: a fixed URL, method and
  headers, and as body the object given to \<open>JSON.stringify\<close>, which leaves
  out a property whose value is \<open>undefined\<close>.
\<close>

record outbound_request =
  url :: string
  http_method :: string
  out_headers :: "(string \<times> string) list"
  out_body :: json

definition upstream_url :: string where
  "upstream_url =
     ''http://26.59.53.88:7860/api/v1/run/ac325ffc-2462-42ff-aa33-292f0c33b66b?stream=false''"

definition api_key :: string where
  "api_key = ''sk-tjmcaGsj62BGA6iy-13F1Q9esTKx-4QLYb9u_TVL84k''"

definition tweaks :: json where
  "tweaks = JObj [(''Agent-2KW2O'', JObj []), (''ChatInput-6v3mV'', JObj []),
                  (''PythonFunction-FcmS4'', JObj []), (''PythonFunction-T0TgC'', JObj []),
                  (''NVIDIAEmbeddingsComponent-JJW34'', JObj []), (''Chroma-ujg9M'', JObj []),
                  (''ChatOutput-uuXRz'', JObj [])]"

definition outbound :: "json option \<Rightarrow> outbound_request" where
  "outbound input_value =
     \<lparr>url = upstream_url,
      http_method = ''POST'',
      out_headers = [(''Content-Type'', ''application/json''), (''x-api-key'', api_key)],
      out_body = JObj ((case input_value of None \<Rightarrow> [] | Some v \<Rightarrow> [(''input_value'', v)]) @
                       [(''output_type'', JStr ''chat''), (''input_type'', JStr ''chat''),
                        (''tweaks'', tweaks)])\<rparr>"

text \<open>The request the handler sends upstream, if it gets as far as sending one.\<close>

definition proxy_outbound :: "request \<Rightarrow> outbound_request option" where
  "proxy_outbound req =
     (case property (body req) ''input_value'' of
        Inl e \<Rightarrow> None
      | Inr v \<Rightarrow> Some (outbound v))"

text \<open>Decimal digits of a number, for the message of the thrown error.\<close>

fun digits :: "nat \<Rightarrow> nat \<Rightarrow> string" where
  "digits 0 n = []"
| "digits (Suc k) n =
     (if n < 10 then [char_of (48 + n)] else digits k (n div 10) @ [char_of (48 + n mod 10)])"

definition show_nat :: "nat \<Rightarrow> string" where
  "show_nat n = digits (Suc n) n"

definition status_error :: "fetch_response \<Rightarrow> js_error" where
  "status_error r =
     \<lparr>name = ''Error'', message = ''API responded with status: '' @ show_nat (status r)\<rparr>"

definition SyntaxError :: js_error where
  "SyntaxError = \<lparr>name = ''SyntaxError'', message = ''Unexpected token in JSON''\<rparr>"

text \<open>The \<open>catch\<close> of the proxy handler.\<close>

definition proxy_catch :: "js_error \<Rightarrow> reply" where
  "proxy_catch e =
     (if name e = ''AbortError''
      then \<lparr>res_status = 504, res_body = ErrorBody ''Request timeout - AI service is not responding''\<rparr>
      else \<lparr>res_status = 500, res_body = ErrorBody ''Failed to process AI request''\<rparr>)"

definition proxy_failed :: "js_error \<Rightarrow> reply \<times> handler_log list" where
  "proxy_failed e =
     (proxy_catch e,
      [Printed ''Attempting to connect to AI API...'', PrintedError ''Error calling AI API:'' e])"

text \<open>
  The handler, given how the network treats each outbound request. The call
  passes 30000 for the timeout (the default of \<open>fetchWithTimeout\<close>, 10000, is
  never used). The timer is cleared when \<open>fetch\<close> resolves, so nothing
  bounds the reading of the body: the result is \<open>None\<close> when the handler never
  responds.
\<close>

definition proxy_ai ::
  "(outbound_request \<Rightarrow> fetch_behaviour) \<Rightarrow> request \<Rightarrow> (reply \<times> handler_log list) option" where
  "proxy_ai network req =
     (case property (body req) ''input_value'' of
        Inl e \<Rightarrow> Some (proxy_failed e)
      | Inr v \<Rightarrow>
         (case fetchWithTimeout (network (outbound v)) 30000 of
            None \<Rightarrow> None
          | Some (Inl e) \<Rightarrow> Some (proxy_failed e)
          | Some (Inr response) \<Rightarrow>
              if \<not> ok response then Some (proxy_failed (status_error response))
              else (case json_body response of
                      BodyStalls \<Rightarrow> None
                    | BodyInvalid \<Rightarrow> Some (proxy_failed SyntaxError)
                    | BodyJson data \<Rightarrow>
                        Some (\<lparr>res_status = 200, res_body = JsonBody data\<rparr>,
                              [Printed ''Attempting to connect to AI API...'']))))"

subsection \<open>Sample inputs\<close>

text \<open>
  A startup in which nothing goes wrong: \<open>PORT\<close> is unset, no library call
  fails, the preferred port is free (no sample has a port string that is not
  made of decimal digits, so \<open>other_port_string\<close> is never asked). And a store
  file with one record.
\<close>

definition quiet_env :: startup_env where
  "quiet_env = \<lparr>env_PORT = None, probe = ProbePasses, unhandled_rejections_throw = True,
                 unlink_throws = False, createClient_throws = False,
                 createTable_rejects = False, other_port_string = PipeName,
                 tester_outcome = TesterListening, listener = Listening\<rparr>"

definition sample_row :: user_row where
  "sample_row = \<lparr>row_id = 1, budget = JNum 5000, city = JStr ''Recife'',
                  investment_type = JStr ''retail'', target_audience = JStr ''students'',
                  created_at = 100\<rparr>"

definition sample_store :: store where
  "sample_store = \<lparr>table = [sample_row], next_id = 2\<rparr>"

definition three_rows :: store where
  "three_rows = \<lparr>table = [sample_row, sample_row\<lparr>row_id := 2, created_at := 300\<rparr>,
                           sample_row\<lparr>row_id := 3, created_at := 200\<rparr>],
                  next_id = 4\<rparr>"

text \<open>A running service with two requests in flight.\<close>

definition two_in_flight :: process where
  "two_in_flight =
     \<lparr>db_file = Some empty_store, db = True,
      server = Some \<lparr>address = TcpPort 3000, handle_open = True, connections = [1, 2],
                     close_callback = False\<rparr>,
      flushed = [], exit_code = None, console = []\<rparr>"

subsection \<open>The draining state\<close>

text \<open>
  The state between the signal and the exit: the listening handle is closed,
  the callback of \<open>shutdown\<close> is registered, and the process runs exactly as
  long as a connection is open.
\<close>

definition draining :: "process \<Rightarrow> bool" where
  "draining p =
     (case server p of
        None \<Rightarrow> False
      | Some s \<Rightarrow> \<not> handle_open s \<and> close_callback s \<and>
                  exit_code p = (if connections s = [] then Some 0 else None))"

section \<open>Properties\<close>

lemmas startup_defs = startServer_def initializeDatabase_def checkAndInitializeDatabase_def
  unhandled_rejection_def isPortInUse_def app_listen_def failed_to_start_def log_def
  process_exit_def boot_def resolve_PORT_def accepting_def bound_address_def Let_def

lemmas port_defs = decimal_def is_digit_def digit_val_def

subsection \<open>Port resolution\<close>

lemma app_listen_bound:
  "exit_code p = None \<Longrightarrow> listener env = Listening \<Longrightarrow>
   listen_address_of (other_port_string env) port \<noteq> InvalidPort \<Longrightarrow>
   bound_address (app_listen env port p) = Some (listen_address_of (other_port_string env) port)"
  by (cases "listen_address_of (other_port_string env) port")
     (simp_all add: app_listen_def bound_address_def accepting_def log_def)

lemma app_listen_console:
  "set (console p) \<subseteq> set (console (app_listen env port p))"
  by (cases "listen_address_of (other_port_string env) port"; cases "listener env")
     (auto simp: app_listen_def log_def process_exit_def failed_to_start_def)

text \<open>
  C1 (the service binds port P when P is free and port P+1 when P is
  occupied, for every requested port P). The code computes the fallback as
  \<open>PORT + 1\<close>; a port that comes from the environment variable is a string,
  and the sum is then the string with \<open>1\<close> appended. With \<open>PORT=3000\<close> set in
  the environment and port 3000 occupied, the service binds port 30001, not
  port 3001, and says so; with \<open>PORT\<close> unset and port 3000 occupied it binds
  port 3001.
\<close>

theorem startServer_string_port_fallback:
  "bound_address
     (startServer (quiet_env\<lparr>env_PORT := Some ''3000'',
                             tester_outcome := TesterError ''EADDRINUSE''\<rparr>) (boot None))
   = Some (TcpPort 30001) \<and>
   PortInUse (PStr ''3000'') (PStr ''30001'')
     \<in> set (console
           (startServer (quiet_env\<lparr>env_PORT := Some ''3000'',
                                   tester_outcome := TesterError ''EADDRINUSE''\<rparr>) (boot None))) \<and>
   bound_address
     (startServer (quiet_env\<lparr>tester_outcome := TesterError ''EADDRINUSE''\<rparr>) (boot None))
   = Some (TcpPort 3001)"
  by (simp add: startup_defs port_defs quiet_env_def)

text \<open>
  C7 as stated (a bind failure of the test listener other than
  address-in-use is a fatal configuration error and is not retried) fails:
  with the test listener refused for lack of permission, the service goes on
  to bind the preferred port and accepts connections.
\<close>

theorem tester_other_error_counterexample:
  "accepting (startServer (quiet_env\<lparr>tester_outcome := TesterError ''EACCES''\<rparr>) (boot None)) \<and>
   bound_address (startServer (quiet_env\<lparr>tester_outcome := TesterError ''EACCES''\<rparr>) (boot None))
     = Some (TcpPort 3000)"
  by (simp add: startup_defs port_defs quiet_env_def)

lemma startServer_after_database:
  assumes "exit_code (initializeDatabase env p) = None"
    and "\<not> unhandled_rejection env p"
  shows
    "startServer env p =
       (let PORT = resolve_PORT (env_PORT env);
            p1 = (initializeDatabase env p)\<lparr>db := True\<rparr> in
        if listen_address_of (other_port_string env) PORT = InvalidPort then failed_to_start p1
        else if tester_outcome env = TesterError ''EADDRINUSE''
        then app_listen env (plus_one PORT) (log (PortInUse PORT (plus_one PORT)) p1)
        else app_listen env PORT
               (p1\<lparr>console := console p1 @
                     (case tester_outcome env of
                        TesterError c \<Rightarrow> [ErrorCheckingPort PORT c]
                      | TesterListening \<Rightarrow> [])\<rparr>))"
  using assms
  by (cases "tester_outcome env")
     (simp_all add: startServer_def isPortInUse_def Let_def log_def)

text \<open>
  C7, amended: during port resolution only a bind failure of the test
  listener whose code is \<open>EADDRINUSE\<close> makes the service bind \<open>PORT + 1\<close>;
  after any other outcome of the test listener, a failure with another code
  included, the service binds the preferred port itself, and such a failure
  is logged first. Stated for every startup that reaches port resolution
  (database initialization did not end the process, and Node does not end
  it on an unhandled rejection): the call of \<open>app.listen\<close> that
  \<open>startServer\<close> makes is on \<open>PORT + 1\<close> exactly when the code is
  \<open>EADDRINUSE\<close>, and on the preferred port otherwise; where the real listener
  binds, the bound address is that port. A preferred port that \<open>listen\<close>
  refuses ends the process before any test bind.
\<close>

theorem only_EADDRINUSE_falls_back:
  assumes "exit_code (initializeDatabase env p) = None"
    and "\<not> unhandled_rejection env p"
  shows
    "startServer env p =
       (let PORT = resolve_PORT (env_PORT env);
            p1 = (initializeDatabase env p)\<lparr>db := True\<rparr> in
        if listen_address_of (other_port_string env) PORT = InvalidPort then failed_to_start p1
        else if tester_outcome env = TesterError ''EADDRINUSE''
        then app_listen env (plus_one PORT) (log (PortInUse PORT (plus_one PORT)) p1)
        else app_listen env PORT
               (p1\<lparr>console := console p1 @
                     (case tester_outcome env of
                        TesterError c \<Rightarrow> [ErrorCheckingPort PORT c]
                      | TesterListening \<Rightarrow> [])\<rparr>)) \<and>
     (listen_address_of (other_port_string env) (resolve_PORT (env_PORT env)) \<noteq> InvalidPort \<and>
      tester_outcome env \<noteq> TesterError ''EADDRINUSE'' \<and> listener env = Listening \<longrightarrow>
        bound_address (startServer env p) =
          Some (listen_address_of (other_port_string env) (resolve_PORT (env_PORT env)))) \<and>
     (listen_address_of (other_port_string env) (resolve_PORT (env_PORT env)) \<noteq> InvalidPort \<and>
      tester_outcome env = TesterError ''EADDRINUSE'' \<and> listener env = Listening \<and>
      listen_address_of (other_port_string env) (plus_one (resolve_PORT (env_PORT env)))
        \<noteq> InvalidPort \<longrightarrow>
        bound_address (startServer env p) =
          Some (listen_address_of (other_port_string env)
                  (plus_one (resolve_PORT (env_PORT env))))) \<and>
     (listen_address_of (other_port_string env) (resolve_PORT (env_PORT env)) \<noteq> InvalidPort \<and>
      tester_outcome env = TesterError c \<and> c \<noteq> ''EADDRINUSE'' \<longrightarrow>
        ErrorCheckingPort (resolve_PORT (env_PORT env)) c \<in> set (console (startServer env p)))"
proof -
  let ?P = "resolve_PORT (env_PORT env)"
  let ?p1 = "(initializeDatabase env p)\<lparr>db := True\<rparr>"
  note eq = startServer_after_database [OF assms]
  have e1: "exit_code ?p1 = None" using assms(1) by simp
  have a: "bound_address (startServer env p) = Some (listen_address_of (other_port_string env) ?P)"
    if "listen_address_of (other_port_string env) ?P \<noteq> InvalidPort"
       "tester_outcome env \<noteq> TesterError ''EADDRINUSE''" "listener env = Listening"
    using that e1 by (simp add: eq Let_def app_listen_bound)
  have b: "bound_address (startServer env p) =
             Some (listen_address_of (other_port_string env) (plus_one ?P))"
    if "listen_address_of (other_port_string env) ?P \<noteq> InvalidPort"
       "tester_outcome env = TesterError ''EADDRINUSE''" "listener env = Listening"
       "listen_address_of (other_port_string env) (plus_one ?P) \<noteq> InvalidPort"
    using that e1 by (simp add: eq Let_def app_listen_bound log_def)
  have c: "ErrorCheckingPort ?P c \<in> set (console (startServer env p))"
    if "listen_address_of (other_port_string env) ?P \<noteq> InvalidPort"
       "tester_outcome env = TesterError c" "c \<noteq> ''EADDRINUSE''"
  proof -
    have "ErrorCheckingPort ?P c
            \<in> set (console (app_listen env ?P
                              (?p1\<lparr>console := console ?p1 @ [ErrorCheckingPort ?P c]\<rparr>)))"
      using app_listen_console
              [of "?p1\<lparr>console := console ?p1 @ [ErrorCheckingPort ?P c]\<rparr>" env ?P]
      by auto
    then show ?thesis using that by (simp add: eq Let_def)
  qed
  from eq a b c show ?thesis by blast
qed

theorem only_EADDRINUSE_falls_back_witness:
  "bound_address
     (startServer (quiet_env\<lparr>env_PORT := Some ''8080'', tester_outcome := TesterError ''EPERM''\<rparr>)
        (boot None)) = Some (TcpPort 8080) \<and>
   ErrorCheckingPort (PStr ''8080'') ''EPERM''
     \<in> set (console
           (startServer (quiet_env\<lparr>env_PORT := Some ''8080'',
                                   tester_outcome := TesterError ''EPERM''\<rparr>) (boot None)))"
  using only_EADDRINUSE_falls_back
          [of "quiet_env\<lparr>env_PORT := Some ''8080'', tester_outcome := TesterError ''EPERM''\<rparr>"
              "boot None" "''EPERM''"]
  by (simp add: startup_defs port_defs quiet_env_def)

subsection \<open>Shutdown\<close>

text \<open>
  C3 as stated (a termination signal that arrives when no listener was ever
  established makes the process exit with a non-zero status) fails: the
  \<open>else\<close> branch of \<open>shutdown\<close> exits with status 0.
\<close>

theorem shutdown_without_listener_counterexample:
  "server (boot None) = None \<and> exit_code (step (boot None) (Signal SIGTERM)) = Some 0"
  by (simp add: step_def shutdown_def process_exit_def boot_def)

text \<open>
  C3, amended: a termination signal that arrives while the process runs and
  no listener has been established makes the process exit with status 0.
\<close>

theorem shutdown_without_listener_exits_zero:
  "server p = None \<Longrightarrow> exit_code p = None \<Longrightarrow> exit_code (step p (Signal sig)) = Some 0"
  by (simp add: step_def shutdown_def process_exit_def)

theorem shutdown_without_listener_witness:
  "server (boot None) = None \<and> exit_code (boot None) = None \<and>
   exit_code (step (boot None) (Signal SIGINT)) = Some 0"
  using shutdown_without_listener_exits_zero [of "boot None" SIGINT]
  by (simp add: boot_def)

subsection \<open>Database initialization\<close>

text \<open>
  C2 (at startup, when the store file exists and the health probe against it
  fails, the file is deleted and the database reinitialized empty; a failing
  reinitialization is fatal). The probe's query is not awaited, so its
  failure reaches no \<open>catch\<close>: whatever the environment, a probe whose query
  rejects leaves \<open>checkAndInitializeDatabase\<close> without effect. With a
  corrupted file, on which the query and then \<open>CREATE TABLE\<close> fail, the file
  is still there when the process exits with status 1, and nothing was
  printed about corruption. The deletion is reached only when the probe
  throws synchronously; then the store is recreated empty and the service
  accepts.
\<close>

theorem unawaited_probe_leaves_the_store:
  "checkAndInitializeDatabase (env\<lparr>probe := ProbeRejects\<rparr>) p = p \<and>
   exit_code (startServer (quiet_env\<lparr>probe := ProbeRejects, createTable_rejects := True\<rparr>)
                (boot (Some sample_store))) = Some 1 \<and>
   db_file (startServer (quiet_env\<lparr>probe := ProbeRejects, createTable_rejects := True\<rparr>)
                (boot (Some sample_store))) = Some sample_store \<and>
   console (startServer (quiet_env\<lparr>probe := ProbeRejects, createTable_rejects := True\<rparr>)
                (boot (Some sample_store))) = [ErrorInitializingDatabase] \<and>
   db_file (startServer (quiet_env\<lparr>probe := ProbeThrows\<rparr>) (boot (Some sample_store)))
     = Some empty_store \<and>
   accepting (startServer (quiet_env\<lparr>probe := ProbeThrows\<rparr>) (boot (Some sample_store)))"
  by (simp add: startup_defs port_defs quiet_env_def)

subsection \<open>The drain\<close>

lemmas drain_defs = step_def shutdown_def server_close_def emit_close_if_drained_def
  shutdown_callback_def process_exit_def log_def open_connections_def

lemma signal_starts_drain:
  assumes "exit_code p = None" "server p = Some s"
  shows "draining (step p (Signal sig))"
    and "open_connections (step p (Signal sig)) = connections s"
    and "flushed (step p (Signal sig)) = flushed p"
  using assms by (simp_all add: drain_defs draining_def)

lemma step_draining:
  assumes "draining p"
  shows "draining (step p ev)"
proof (cases "exit_code p = None")
  case False
  then show ?thesis using assms by (simp add: step_def)
next
  case True
  obtain s where s: "server p = Some s" "\<not> handle_open s" "close_callback s" "connections s \<noteq> []"
    using assms True by (auto simp: draining_def split: option.splits if_splits)
  show ?thesis
  proof (cases ev)
    case (Signal sig)
    with True s show ?thesis by (simp add: drain_defs draining_def)
  next
    case (Connect c)
    with True s assms show ?thesis by (simp add: drain_defs)
  next
    case (Finish c)
    with True s assms show ?thesis by (simp add: drain_defs draining_def)
  qed
qed

lemma step_open_connections:
  assumes "draining p"
  shows "set (open_connections (step p ev)) \<subseteq> set (open_connections p)"
proof (cases "exit_code p = None")
  case False
  then show ?thesis by (simp add: step_def)
next
  case True
  obtain s where s: "server p = Some s" "\<not> handle_open s" "close_callback s"
    using assms by (auto simp: draining_def split: option.splits)
  from True s show ?thesis
    by (cases ev) (auto simp: drain_defs)
qed

lemma removeAll_empty: "removeAll c xs = [] \<Longrightarrow> x \<in> set xs \<Longrightarrow> x = c"
  using set_removeAll [of c xs] by auto

lemma step_flushed:
  "set (open_connections p) \<union> set (flushed p)
     \<subseteq> set (open_connections (step p ev)) \<union> set (flushed (step p ev))"
  by (cases ev) (auto simp: drain_defs split: option.splits dest: removeAll_empty)

lemma step_Finish_closes:
  assumes "draining p"
  shows "c \<notin> set (open_connections (step p (Finish c)))"
proof (cases "exit_code p = None")
  case False
  then show ?thesis using assms by (auto simp: step_def draining_def open_connections_def split: option.splits if_splits)
next
  case True
  then show ?thesis by (auto simp: drain_defs split: option.splits)
qed

lemma run_draining: "draining p \<Longrightarrow> draining (run p evs)"
  unfolding run_def by (induction evs arbitrary: p) (simp_all add: step_draining)

lemma run_open_connections:
  "draining p \<Longrightarrow> set (open_connections (run p evs)) \<subseteq> set (open_connections p)"
  unfolding run_def
proof (induction evs arbitrary: p)
  case Nil
  then show ?case by simp
next
  case (Cons ev evs)
  have "set (open_connections (foldl step (step p ev) evs)) \<subseteq> set (open_connections (step p ev))"
    using Cons.IH [of "step p ev"] Cons.prems by (simp add: step_draining)
  also have "\<dots> \<subseteq> set (open_connections p)"
    using Cons.prems by (rule step_open_connections)
  finally show ?case by simp
qed

lemma run_flushed:
  "set (open_connections p) \<union> set (flushed p)
     \<subseteq> set (open_connections (run p evs)) \<union> set (flushed (run p evs))"
  unfolding run_def
proof (induction evs arbitrary: p)
  case Nil
  then show ?case by simp
next
  case (Cons ev evs)
  show ?case using step_flushed [of p ev] Cons.IH [of "step p ev"] by auto
qed

lemma draining_exit:
  "draining p \<Longrightarrow> exit_code p = None \<or> exit_code p = Some 0"
  by (auto simp: draining_def split: option.splits if_splits)

lemma draining_exited:
  "draining p \<Longrightarrow> (exit_code p = Some 0) = (open_connections p = [])"
  by (auto simp: draining_def open_connections_def split: option.splits if_splits)

lemma run_finishes:
  "draining p \<Longrightarrow> \<forall>c \<in> set (open_connections p). Finish c \<in> set evs \<Longrightarrow>
   exit_code (run p evs) = Some 0"
  unfolding run_def
proof (induction evs arbitrary: p)
  case Nil
  then show ?case by (simp add: draining_exited)
next
  case (Cons ev evs)
  have d: "draining (step p ev)" using Cons.prems(1) by (rule step_draining)
  have "Finish c \<in> set evs" if c: "c \<in> set (open_connections (step p ev))" for c
  proof -
    have "c \<in> set (open_connections p)"
      using c step_open_connections [OF Cons.prems(1), of ev] by blast
    then have "Finish c \<in> set (ev # evs)" using Cons.prems(2) by blast
    moreover have "ev \<noteq> Finish c"
      using c step_Finish_closes [OF Cons.prems(1), of c] by auto
    ultimately show ?thesis by auto
  qed
  then show ?case using Cons.IH [OF d] by simp
qed

lemma step_keeps_open:
  "c \<in> set (open_connections p) \<Longrightarrow> ev \<noteq> Finish c \<Longrightarrow> c \<in> set (open_connections (step p ev))"
  by (cases ev) (auto simp: drain_defs split: option.splits dest: removeAll_empty)

lemma run_keeps_open:
  "c \<in> set (open_connections p) \<Longrightarrow> Finish c \<notin> set evs \<Longrightarrow>
   c \<in> set (open_connections (run p evs))"
  unfolding run_def
  by (induction evs arbitrary: p) (auto simp: step_keeps_open)

text \<open>
  C5: on SIGINT or SIGTERM while the listener is established, the server
  stops admitting connections at once, the requests in flight complete with
  their responses written, and the process then exits with status 0. In the
  model: after the signal the service no longer accepts; whatever happens
  next, no connection is open that was not open at the signal; the process
  does not exit while a request that was in flight at the signal is
  unfinished; it exits, with status 0 and no other, once all of them have
  finished, and all their responses have been written by then.
\<close>

theorem signal_drains_and_exits_zero:
  assumes "exit_code p = None" and "server p = Some s" and "handle_open s"
  shows "\<not> accepting (step p (Signal sig)) \<and>
         set (open_connections (run (step p (Signal sig)) evs)) \<subseteq> set (connections s) \<and>
         (exit_code (run (step p (Signal sig)) evs) = None \<or>
          exit_code (run (step p (Signal sig)) evs) = Some 0) \<and>
         (exit_code (run (step p (Signal sig)) evs) = Some 0 \<longrightarrow>
            set (connections s) \<subseteq> set (flushed (run (step p (Signal sig)) evs))) \<and>
         ((\<forall>c \<in> set (connections s). Finish c \<in> set evs) \<longrightarrow>
            exit_code (run (step p (Signal sig)) evs) = Some 0) \<and>
         ((\<exists>c \<in> set (connections s). Finish c \<notin> set evs) \<longrightarrow>
            exit_code (run (step p (Signal sig)) evs) = None)"
proof -
  let ?a = "step p (Signal sig)"
  let ?z = "run ?a evs"
  note start = signal_starts_drain [OF assms(1,2), of sig]
  have d: "draining ?z" using start(1) by (rule run_draining)
  have 1: "\<not> accepting ?a"
    using start(1) by (auto simp: accepting_def draining_def split: option.splits)
  have 2: "set (open_connections ?z) \<subseteq> set (connections s)"
    using run_open_connections [OF start(1), of evs] start(2) by simp
  have 3: "exit_code ?z = None \<or> exit_code ?z = Some 0"
    using d by (rule draining_exit)
  have 4: "set (connections s) \<subseteq> set (flushed ?z)" if "exit_code ?z = Some 0"
  proof -
    have "open_connections ?z = []" using that draining_exited [OF d] by simp
    then show ?thesis using run_flushed [of ?a evs] start(2) by auto
  qed
  have 5: "exit_code ?z = Some 0" if "\<forall>c \<in> set (connections s). Finish c \<in> set evs"
    using run_finishes [OF start(1), of evs] that start(2) by simp
  have 6: "exit_code ?z = None" if "\<exists>c \<in> set (connections s). Finish c \<notin> set evs"
  proof -
    from that obtain c where "c \<in> set (open_connections ?a)" "Finish c \<notin> set evs"
      using start(2) by auto
    then have "c \<in> set (open_connections ?z)" by (rule run_keeps_open)
    then have "exit_code ?z \<noteq> Some 0" using draining_exited [OF d] by auto
    with 3 show ?thesis by blast
  qed
  from 1 2 3 4 5 6 show ?thesis by blast
qed

theorem signal_drains_and_exits_zero_witness:
  "exit_code (run (step two_in_flight (Signal SIGTERM)) [Connect 3, Finish 2, Finish 1]) = Some 0 \<and>
   set [1, 2] \<subseteq> set (flushed (run (step two_in_flight (Signal SIGTERM)) [Connect 3, Finish 2, Finish 1])) \<and>
   exit_code (run (step two_in_flight (Signal SIGTERM)) [Connect 3, Finish 2]) = None"
  using signal_drains_and_exits_zero
          [of two_in_flight "\<lparr>address = TcpPort 3000, handle_open = True, connections = [1, 2],
                     close_callback = False\<rparr>" SIGTERM "[Connect 3, Finish 2, Finish 1]"]
        signal_drains_and_exits_zero
          [of two_in_flight "\<lparr>address = TcpPort 3000, handle_open = True, connections = [1, 2],
                     close_callback = False\<rparr>" SIGTERM "[Connect 3, Finish 2]"]
  by (simp add: two_in_flight_def)

subsection \<open>The bounded outbound call\<close>

lemma call_step_final:
  "outcome s \<noteq> None \<Longrightarrow> timer s \<noteq> Armed \<Longrightarrow> call_step s ev = s"
  by (cases ev) (simp_all add: call_step_def settle_def)

lemma call_steps_final:
  "outcome s \<noteq> None \<Longrightarrow> timer s \<noteq> Armed \<Longrightarrow> foldl call_step s evs = s"
  by (induction evs) (simp_all add: call_step_final)

lemma call_run_TimerFires:
  "call_run (TimerFires # evs) = \<lparr>timer = Fired, aborted = True, outcome = Some (Inl AbortError)\<rparr>"
  by (simp add: call_run_def call_step_def settle_def pending_def call_steps_final)

lemma call_run_FetchSettles:
  "call_run (FetchSettles r # evs) =
     \<lparr>timer = Cleared, aborted = False,
      outcome = Some (case r of Resolves resp \<Rightarrow> Inr resp | Rejects e \<Rightarrow> Inl e)\<rparr>"
  by (simp add: call_run_def call_step_def settle_def pending_def call_steps_final)

lemma fetchWithTimeout_cases:
  "fetchWithTimeout net timeout =
     (case net of
        NeverSettles \<Rightarrow> Some (Inl AbortError)
      | SettlesAt t r \<Rightarrow>
          if t < timeout then Some (case r of Resolves resp \<Rightarrow> Inr resp | Rejects e \<Rightarrow> Inl e)
          else Some (Inl AbortError))"
  by (cases net) (simp_all add: fetchWithTimeout_def call_run_TimerFires call_run_FetchSettles)

text \<open>
  C6: every bounded outbound call produces exactly one terminal outcome, and
  the timer is disarmed on the first terminal event, so that a late timer
  never cancels a call that has completed. In the model: \<open>fetchWithTimeout\<close>
  always has an outcome; the first event of a call, whichever it is, gives
  the call its outcome and leaves the timer unarmed; no later event changes
  the state of the call; and a call that the network settled first is never
  aborted, whatever the timer does afterwards.
\<close>

theorem fetchWithTimeout_one_outcome:
  "(\<exists>out. fetchWithTimeout net timeout = Some out) \<and>
   outcome (call_run [ev]) \<noteq> None \<and>
   timer (call_run [ev]) \<noteq> Armed \<and>
   call_run (ev # evs) = call_run [ev] \<and>
   call_run (TimerFires # evs) =
      \<lparr>timer = Fired, aborted = True, outcome = Some (Inl AbortError)\<rparr> \<and>
   call_run (FetchSettles (Resolves resp) # evs) =
      \<lparr>timer = Cleared, aborted = False, outcome = Some (Inr resp)\<rparr> \<and>
   call_run (FetchSettles (Rejects e) # evs) =
      \<lparr>timer = Cleared, aborted = False, outcome = Some (Inl e)\<rparr>"
proof -
  have "\<exists>out. fetchWithTimeout net timeout = Some out"
    by (simp add: fetchWithTimeout_cases split: fetch_behaviour.split)
  moreover have "outcome (call_run [ev]) \<noteq> None \<and> timer (call_run [ev]) \<noteq> Armed \<and>
                 call_run (ev # evs) = call_run [ev]"
    by (cases ev) (simp_all add: call_run_TimerFires call_run_FetchSettles)
  ultimately show ?thesis
    by (simp add: call_run_TimerFires call_run_FetchSettles)
qed

subsection \<open>The proxy handler\<close>

lemma proxy_catch_AbortError:
  "proxy_catch AbortError =
     \<lparr>res_status = 504, res_body = ErrorBody ''Request timeout - AI service is not responding''\<rparr>"
  by (simp add: proxy_catch_def AbortError_def)

lemma proxy_catch_other:
  "name e \<noteq> ''AbortError'' \<Longrightarrow>
   proxy_catch e = \<lparr>res_status = 500, res_body = ErrorBody ''Failed to process AI request''\<rparr>"
  by (simp add: proxy_catch_def)

lemma proxy_catch_status_error:
  "proxy_catch (status_error r) =
     \<lparr>res_status = 500, res_body = ErrorBody ''Failed to process AI request''\<rparr>"
  by (simp add: proxy_catch_def status_error_def)

lemma proxy_catch_fixed:
  "proxy_catch TypeError = \<lparr>res_status = 500, res_body = ErrorBody ''Failed to process AI request''\<rparr>"
  "proxy_catch SyntaxError = \<lparr>res_status = 500, res_body = ErrorBody ''Failed to process AI request''\<rparr>"
  by (simp_all add: proxy_catch_def TypeError_def SyntaxError_def)

lemma property_error: "property b k = Inl e \<Longrightarrow> e = TypeError"
  by (auto simp: property_def split: option.splits json.splits)

lemma proxy_catch_replies:
  "proxy_catch e = \<lparr>res_status = 504, res_body = ErrorBody ''Request timeout - AI service is not responding''\<rparr> \<or>
   proxy_catch e = \<lparr>res_status = 500, res_body = ErrorBody ''Failed to process AI request''\<rparr>"
  by (simp add: proxy_catch_def)

lemma proxy_ai_replies:
  assumes "proxy_ai network req = Some (r, l)"
  shows "r = \<lparr>res_status = 504, res_body = ErrorBody ''Request timeout - AI service is not responding''\<rparr> \<or>
         r = \<lparr>res_status = 500, res_body = ErrorBody ''Failed to process AI request''\<rparr> \<or>
         (\<exists>data. r = \<lparr>res_status = 200, res_body = JsonBody data\<rparr>)"
proof -
  have "(\<exists>e. r = proxy_catch e) \<or> (\<exists>data. r = \<lparr>res_status = 200, res_body = JsonBody data\<rparr>)"
    using assms
    by (auto simp: proxy_ai_def proxy_failed_def
             split: sum.splits option.splits if_splits body_read.splits)
  then show ?thesis using proxy_catch_replies by metis
qed

lemma show_nat_503: "show_nat 503 = ''503''"
  by code_simp

text \<open>
  C4: the response of the proxy handler is determined by the outcome of the
  outbound call. A timeout (the fetch has not settled when 30000 ms have
  passed, so the timer aborts it) gives 504, as does a fetch rejected with
  an error named \<open>AbortError\<close>; every other failure gives 500 with a fixed
  message: a request without a body, a fetch rejected with any other error,
  an upstream status outside 200..299, a body that is not JSON. A response
  in time with a status in 200..299 and a JSON body gives 200 with that
  body. Whenever the handler responds, the response is one of the two
  failure constants or such a 200; the constants hold nothing of the
  upstream status, of the error, or of the request sent upstream; the status
  is in the thrown error, which is only printed.
\<close>

theorem proxy_ai_failure_replies:
  "(proxy_ai network req = Some (r, l) \<longrightarrow>
      r = \<lparr>res_status = 504, res_body = ErrorBody ''Request timeout - AI service is not responding''\<rparr> \<or>
      r = \<lparr>res_status = 500, res_body = ErrorBody ''Failed to process AI request''\<rparr> \<or>
      (\<exists>data. r = \<lparr>res_status = 200, res_body = JsonBody data\<rparr>)) \<and>
   (property (body req) ''input_value'' = Inl e0 \<longrightarrow>
      proxy_ai network req =
        Some (\<lparr>res_status = 500, res_body = ErrorBody ''Failed to process AI request''\<rparr>,
              [Printed ''Attempting to connect to AI API...'',
               PrintedError ''Error calling AI API:'' e0])) \<and>
   (property (body req) ''input_value'' = Inr v \<longrightarrow>
      (network (outbound v) = NeverSettles \<or>
       (\<exists>x. network (outbound v) = SettlesAt t x \<and> 30000 \<le> t) \<longrightarrow>
         map_option fst (proxy_ai network req) =
           Some \<lparr>res_status = 504,
                 res_body = ErrorBody ''Request timeout - AI service is not responding''\<rparr>) \<and>
      (network (outbound v) = SettlesAt t (Resolves resp) \<and> t < 30000 \<and> \<not> ok resp \<longrightarrow>
         proxy_ai network req =
           Some (\<lparr>res_status = 500, res_body = ErrorBody ''Failed to process AI request''\<rparr>,
                 [Printed ''Attempting to connect to AI API...'',
                  PrintedError ''Error calling AI API:'' (status_error resp)])) \<and>
      (network (outbound v) = SettlesAt t (Rejects e) \<and> t < 30000 \<and> name e \<noteq> ''AbortError'' \<longrightarrow>
         map_option fst (proxy_ai network req) =
           Some \<lparr>res_status = 500, res_body = ErrorBody ''Failed to process AI request''\<rparr>) \<and>
      (network (outbound v) = SettlesAt t (Rejects e) \<and> t < 30000 \<and> name e = ''AbortError'' \<longrightarrow>
         map_option fst (proxy_ai network req) =
           Some \<lparr>res_status = 504,
                 res_body = ErrorBody ''Request timeout - AI service is not responding''\<rparr>) \<and>
      (network (outbound v) = SettlesAt t (Resolves resp) \<and> t < 30000 \<and> ok resp \<and>
       json_body resp = BodyInvalid \<longrightarrow>
         map_option fst (proxy_ai network req) =
           Some \<lparr>res_status = 500, res_body = ErrorBody ''Failed to process AI request''\<rparr>) \<and>
      (network (outbound v) = SettlesAt t (Resolves resp) \<and> t < 30000 \<and> ok resp \<and>
       json_body resp = BodyJson data \<longrightarrow>
         map_option fst (proxy_ai network req) =
           Some \<lparr>res_status = 200, res_body = JsonBody data\<rparr>))"
proof -
  have 1: "r = \<lparr>res_status = 504, res_body = ErrorBody ''Request timeout - AI service is not responding''\<rparr> \<or>
           r = \<lparr>res_status = 500, res_body = ErrorBody ''Failed to process AI request''\<rparr> \<or>
           (\<exists>data. r = \<lparr>res_status = 200, res_body = JsonBody data\<rparr>)"
    if "proxy_ai network req = Some (r, l)"
    using that by (rule proxy_ai_replies)
  have 0: "proxy_ai network req =
        Some (\<lparr>res_status = 500, res_body = ErrorBody ''Failed to process AI request''\<rparr>,
              [Printed ''Attempting to connect to AI API...'',
               PrintedError ''Error calling AI API:'' e0])"
    if "property (body req) ''input_value'' = Inl e0"
    using that property_error [OF that]
    by (simp add: proxy_ai_def proxy_failed_def proxy_catch_fixed)
  have 2: "map_option fst (proxy_ai network req) =
             Some \<lparr>res_status = 504,
                   res_body = ErrorBody ''Request timeout - AI service is not responding''\<rparr>"
    if "property (body req) ''input_value'' = Inr v"
       "network (outbound v) = NeverSettles \<or>
        (\<exists>x. network (outbound v) = SettlesAt t x \<and> 30000 \<le> t)"
    using that
    by (auto simp: proxy_ai_def fetchWithTimeout_cases proxy_failed_def proxy_catch_AbortError)
  have 3: "proxy_ai network req =
             Some (\<lparr>res_status = 500, res_body = ErrorBody ''Failed to process AI request''\<rparr>,
                   [Printed ''Attempting to connect to AI API...'',
                    PrintedError ''Error calling AI API:'' (status_error resp)])"
    if "property (body req) ''input_value'' = Inr v"
       "network (outbound v) = SettlesAt t (Resolves resp)" "t < 30000" "\<not> ok resp"
    using that
    by (simp add: proxy_ai_def fetchWithTimeout_cases proxy_failed_def proxy_catch_status_error)
  have 4: "map_option fst (proxy_ai network req) =
             Some \<lparr>res_status = 500, res_body = ErrorBody ''Failed to process AI request''\<rparr>"
    if "property (body req) ''input_value'' = Inr v"
       "network (outbound v) = SettlesAt t (Rejects e)" "t < 30000" "name e \<noteq> ''AbortError''"
    using that
    by (simp add: proxy_ai_def fetchWithTimeout_cases proxy_failed_def proxy_catch_other)
  have 5: "map_option fst (proxy_ai network req) =
             Some \<lparr>res_status = 504,
                   res_body = ErrorBody ''Request timeout - AI service is not responding''\<rparr>"
    if "property (body req) ''input_value'' = Inr v"
       "network (outbound v) = SettlesAt t (Rejects e)" "t < 30000" "name e = ''AbortError''"
    using that
    by (simp add: proxy_ai_def fetchWithTimeout_cases proxy_failed_def proxy_catch_def)
  have 6: "map_option fst (proxy_ai network req) =
             Some \<lparr>res_status = 500, res_body = ErrorBody ''Failed to process AI request''\<rparr>"
    if "property (body req) ''input_value'' = Inr v"
       "network (outbound v) = SettlesAt t (Resolves resp)" "t < 30000" "ok resp"
       "json_body resp = BodyInvalid"
    using that
    by (simp add: proxy_ai_def fetchWithTimeout_cases proxy_failed_def proxy_catch_fixed)
  have 7: "map_option fst (proxy_ai network req) =
             Some \<lparr>res_status = 200, res_body = JsonBody data\<rparr>"
    if "property (body req) ''input_value'' = Inr v"
       "network (outbound v) = SettlesAt t (Resolves resp)" "t < 30000" "ok resp"
       "json_body resp = BodyJson data"
    using that
    by (simp add: proxy_ai_def fetchWithTimeout_cases)
  show ?thesis
    using 0 1 2 3 4 5 6 7 by blast
qed

theorem proxy_ai_failure_replies_witness:
  "proxy_ai (\<lambda>out. SettlesAt 120 (Resolves \<lparr>status = 503, json_body = BodyJson (JStr ''busy'')\<rparr>))
     \<lparr>headers = [], body = Some (JObj [(''input_value'', JStr ''hello'')])\<rparr>
   = Some (\<lparr>res_status = 500, res_body = ErrorBody ''Failed to process AI request''\<rparr>,
           [Printed ''Attempting to connect to AI API...'',
            PrintedError ''Error calling AI API:''
              \<lparr>name = ''Error'', message = ''API responded with status: 503''\<rparr>]) \<and>
   map_option fst
     (proxy_ai (\<lambda>out. SettlesAt 120 (Resolves \<lparr>status = 200, json_body = BodyInvalid\<rparr>))
        \<lparr>headers = [], body = Some (JObj [(''input_value'', JStr ''hello'')])\<rparr>)
   = Some \<lparr>res_status = 500, res_body = ErrorBody ''Failed to process AI request''\<rparr> \<and>
   map_option fst (proxy_ai (\<lambda>out. NeverSettles) \<lparr>headers = [], body = None\<rparr>)
   = Some \<lparr>res_status = 500, res_body = ErrorBody ''Failed to process AI request''\<rparr>"
  using proxy_ai_failure_replies
    [where network = "\<lambda>out. SettlesAt 120 (Resolves \<lparr>status = 503, json_body = BodyJson (JStr ''busy'')\<rparr>)"
        and req = "\<lparr>headers = [], body = Some (JObj [(''input_value'', JStr ''hello'')])\<rparr>"
        and v = "Some (JStr ''hello'')" and t = 120
        and resp = "\<lparr>status = 503, json_body = BodyJson (JStr ''busy'')\<rparr>"]
    proxy_ai_failure_replies
    [where network = "\<lambda>out. SettlesAt 120 (Resolves \<lparr>status = 200, json_body = BodyInvalid\<rparr>)"
        and req = "\<lparr>headers = [], body = Some (JObj [(''input_value'', JStr ''hello'')])\<rparr>"
        and v = "Some (JStr ''hello'')" and t = 120
        and resp = "\<lparr>status = 200, json_body = BodyInvalid\<rparr>"]
    proxy_ai_failure_replies
    [where network = "\<lambda>out. NeverSettles" and req = "\<lparr>headers = [], body = None\<rparr>"
        and ?e0.0 = TypeError]
  by (simp add: property_def ok_def status_error_def show_nat_503)

text \<open>
  C10: what the proxy handler sends upstream (URL, method, headers, body) is
  determined by the value of \<open>req.body.input_value\<close> alone: two requests
  on which that expression evaluates alike lead to the same outbound
  request, whatever their headers and their other body fields, and so to the
  same handling.
\<close>

theorem proxy_outbound_depends_on_input_value_only:
  "property (body r1) ''input_value'' = property (body r2) ''input_value'' \<Longrightarrow>
   proxy_outbound r1 = proxy_outbound r2 \<and> proxy_ai network r1 = proxy_ai network r2"
  by (simp add: proxy_outbound_def proxy_ai_def)

theorem proxy_outbound_depends_on_input_value_only_witness:
  "proxy_outbound
     \<lparr>headers = [(''x-api-key'', ''mine''), (''Authorization'', ''Bearer abc'')],
      body = Some (JObj [(''input_value'', JStr ''hello''), (''tweaks'', JNull)])\<rparr>
   = proxy_outbound
     \<lparr>headers = [],
      body = Some (JObj [(''url'', JStr ''http://x''), (''input_value'', JStr ''hello'')])\<rparr>"
  using proxy_outbound_depends_on_input_value_only
    [of "\<lparr>headers = [(''x-api-key'', ''mine''), (''Authorization'', ''Bearer abc'')],
          body = Some (JObj [(''input_value'', JStr ''hello''), (''tweaks'', JNull)])\<rparr>"
        "\<lparr>headers = [],
          body = Some (JObj [(''url'', JStr ''http://x''), (''input_value'', JStr ''hello'')])\<rparr>"]
  by (simp add: property_def)

subsection \<open>The storage handlers\<close>

lemma post_user_data_status:
  "res_status (fst (fst (post_user_data execute d req))) = 200 \<or>
   res_status (fst (fst (post_user_data execute d req))) = 500"
  by (auto simp: post_user_data_def save_failed_def split: sum.splits prod.splits)

lemma insert_row_missing:
  "None \<in> set args \<Longrightarrow> insert_row now s args = Inl constraint_error"
  by (auto simp: insert_row_def split: list.splits option.splits)

lemma store_execute_missing:
  "None \<in> set args \<Longrightarrow> \<exists>e. store_execute fails now s (Insert args) = Inl e"
  by (simp add: store_execute_def insert_row_missing)

text \<open>
  C9: \<open>POST /api/user-data\<close> validates nothing. Whatever the storage layer
  does, the handler answers 200 or 500 and never a client error; the four
  fields of the body, defined or not, are the arguments of the insert as they
  are; a rejected insert gives 500 with a fixed message; and on the reference
  store a body that lacks one of the four fields is rejected by the insert
  and so gives that 500.
\<close>

theorem post_user_data_no_validation:
  "(res_status (fst (fst (post_user_data execute d req))) = 200 \<or>
    res_status (fst (fst (post_user_data execute d req))) = 500) \<and>
   (body req = Some b \<and> b \<noteq> JNull \<and>
    execute d (Insert [field b ''budget'', field b ''city'', field b ''investmentType'',
                       field b ''targetAudience'']) = Inl e \<longrightarrow>
      post_user_data execute d req =
        ((\<lparr>res_status = 500, res_body = ErrorBody ''Failed to save user data''\<rparr>,
          [PrintedError ''Error saving user data:'' e]), d)) \<and>
   (body req = Some b \<and> b \<noteq> JNull \<and>
    execute d (Insert [field b ''budget'', field b ''city'', field b ''investmentType'',
                       field b ''targetAudience'']) = Inr (result, d1) \<and>
    execute d1 (SelectById (lastInsertRowid result)) = Inr (insertedData, d2) \<longrightarrow>
      post_user_data execute d req =
        ((\<lparr>res_status = 200,
           res_body = RowBody (case rows insertedData of [] \<Rightarrow> None | r # _ \<Rightarrow> Some r)\<rparr>, []), d2)) \<and>
   (body req = Some b \<and>
    k \<in> set [''budget'', ''city'', ''investmentType'', ''targetAudience''] \<and> field b k = None \<longrightarrow>
      fst (fst (post_user_data (store_execute fails now) s req)) =
        \<lparr>res_status = 500, res_body = ErrorBody ''Failed to save user data''\<rparr>)"
proof -
  have 1: "post_user_data execute d req =
        ((\<lparr>res_status = 500, res_body = ErrorBody ''Failed to save user data''\<rparr>,
          [PrintedError ''Error saving user data:'' e]), d)"
    if "body req = Some b" "b \<noteq> JNull"
       "execute d (Insert [field b ''budget'', field b ''city'', field b ''investmentType'',
                       field b ''targetAudience'']) = Inl e"
    using that by (cases b) (simp_all add: post_user_data_def destructure_def save_failed_def)
  have 2: "post_user_data execute d req =
        ((\<lparr>res_status = 200,
           res_body = RowBody (case rows insertedData of [] \<Rightarrow> None | r # _ \<Rightarrow> Some r)\<rparr>, []), d2)"
    if "body req = Some b" "b \<noteq> JNull"
       "execute d (Insert [field b ''budget'', field b ''city'', field b ''investmentType'',
                       field b ''targetAudience'']) = Inr (result, d1)"
       "execute d1 (SelectById (lastInsertRowid result)) = Inr (insertedData, d2)"
    using that by (cases b) (simp_all add: post_user_data_def destructure_def)
  have 3: "fst (fst (post_user_data (store_execute fails now) s req)) =
        \<lparr>res_status = 500, res_body = ErrorBody ''Failed to save user data''\<rparr>"
    if b: "body req = Some b"
      and k: "k \<in> set [''budget'', ''city'', ''investmentType'', ''targetAudience'']"
      and f: "field b k = None"
  proof (cases "b = JNull")
    case True
    with b show ?thesis by (simp add: post_user_data_def destructure_def save_failed_def)
  next
    case False
    let ?args = "[field b ''budget'', field b ''city'', field b ''investmentType'',
                  field b ''targetAudience'']"
    have d: "destructure (body req) = Inr ?args"
      using b False by (cases b) (simp_all add: destructure_def)
    have "None \<in> set ?args" using k f by auto
    then obtain e where "store_execute fails now s (Insert ?args) = Inl e"
      using store_execute_missing by blast
    with d show ?thesis by (simp add: post_user_data_def save_failed_def)
  qed
  show ?thesis
    using post_user_data_status [of execute d req] 1 2 3 by blast
qed

theorem post_user_data_no_validation_witness:
  "fst (fst (post_user_data (store_execute (\<lambda>q. False) 7) sample_store
               \<lparr>headers = [], body = Some (JObj [(''budget'', JNum 3), (''city'', JStr ''Olinda'')])\<rparr>))
   = \<lparr>res_status = 500, res_body = ErrorBody ''Failed to save user data''\<rparr>"
  using post_user_data_no_validation
    [of "store_execute (\<lambda>q. False) 7" sample_store
        "\<lparr>headers = [], body = Some (JObj [(''budget'', JNum 3), (''city'', JStr ''Olinda'')])\<rparr>"
        "JObj [(''budget'', JNum 3), (''city'', JStr ''Olinda'')]" _ _ _ _ _ "''investmentType''"
        "\<lambda>q. False" 7 sample_store]
  by simp

lemma order_by_created_at_desc_sorted:
  "sorted_wrt (\<lambda>a b. created_at b \<le> created_at a) (order_by_created_at_desc rs)"
proof -
  have "sorted (map created_at (sort_key created_at rs))" by simp
  then have "sorted_wrt (\<lambda>a b. created_at a \<le> created_at b) (sort_key created_at rs)"
    by (simp add: sorted_map)
  then show ?thesis
    by (simp add: order_by_created_at_desc_def sorted_wrt_rev)
qed

lemma order_by_created_at_desc_mset:
  "mset (order_by_created_at_desc rs) = mset rs"
  by (simp add: order_by_created_at_desc_def)

text \<open>
  C8: \<open>GET /api/user-data\<close> answers 200 with the rows its query returned, and
  500 with a fixed message when the query is rejected. On the reference store
  the rows of a successful request are all the stored records, ordered by
  \<open>created_at\<close> descending.
\<close>

theorem get_user_data_ordered:
  "(execute d SelectAllOrdered = Inl e \<longrightarrow>
      get_user_data execute d req =
        ((\<lparr>res_status = 500, res_body = ErrorBody ''Failed to fetch user data''\<rparr>,
          [PrintedError ''Error fetching user data:'' e]), d)) \<and>
   (execute d SelectAllOrdered = Inr (result, d1) \<longrightarrow>
      get_user_data execute d req =
        ((\<lparr>res_status = 200, res_body = RowsBody (rows result)\<rparr>, []), d1)) \<and>
   (fails SelectAllOrdered \<longrightarrow>
      fst (fst (get_user_data (store_execute fails now) s req)) =
        \<lparr>res_status = 500, res_body = ErrorBody ''Failed to fetch user data''\<rparr>) \<and>
   (\<not> fails SelectAllOrdered \<longrightarrow>
      (\<exists>rs. get_user_data (store_execute fails now) s req =
               ((\<lparr>res_status = 200, res_body = RowsBody rs\<rparr>, []), s) \<and>
            mset rs = mset (table s) \<and>
            sorted_wrt (\<lambda>a b. created_at b \<le> created_at a) rs))"
  by (simp add: get_user_data_def fetch_failed_def store_execute_def
        order_by_created_at_desc_sorted order_by_created_at_desc_mset)

theorem get_user_data_ordered_witness:
  "fst (fst (get_user_data (store_execute (\<lambda>q. False) 7) three_rows \<lparr>headers = [], body = None\<rparr>))
   = \<lparr>res_status = 200,
      res_body = RowsBody [sample_row\<lparr>row_id := 2, created_at := 300\<rparr>,
                           sample_row\<lparr>row_id := 3, created_at := 200\<rparr>, sample_row]\<rparr>"
  using get_user_data_ordered [where fails = "\<lambda>q. False" and now = 7 and s = three_rows
                                and req = "\<lparr>headers = [], body = None\<rparr>"]
  by (simp add: get_user_data_def store_execute_def order_by_created_at_desc_def sample_row_def three_rows_def)

end
